theory Spec2Isabelle
  imports Complex_Main
begin

section \<open>The rectangle fragment shader\<close>

text \<open>
  \<^verbatim>\<open>internal/painter/gl/shaders/rectangle_es.frag\<close>. A GLSL \<^verbatim>\<open>vec4\<close> is a record of
  four components; \<^verbatim>\<open>v[i]\<close> reads component \<open>i\<close>. The shader's \<^verbatim>\<open>float\<close> is
  idealised as \<^typ>\<open>real\<close>: the shader only subtracts, adds and compares.
\<close>

record vec4 =
  x :: real
  y :: real
  z :: real
  w :: real

definition vec4_index :: "vec4 \<Rightarrow> nat \<Rightarrow> real" where
  "vec4_index v i = (if i = 0 then x v else if i = 1 then y v else if i = 2 then z v else w v)"

text \<open>
  The uniforms \<^verbatim>\<open>frame_size\<close>, \<^verbatim>\<open>rect_coords\<close>, \<^verbatim>\<open>stroke_width\<close>, \<^verbatim>\<open>fill_color\<close>,
  \<^verbatim>\<open>stroke_color\<close> and the built-in input \<^verbatim>\<open>gl_FragCoord\<close> are the arguments; the
  result is the value written to \<^verbatim>\<open>gl_FragColor\<close>.
\<close>

definition main :: "vec4 \<Rightarrow> vec4 \<Rightarrow> real \<Rightarrow> vec4 \<Rightarrow> vec4 \<Rightarrow> vec4 \<Rightarrow> vec4" where
  "main frame_size rect_coords stroke_width fill_color stroke_color gl_FragCoord =
     (let color = fill_color in
      if x gl_FragCoord \<ge> vec4_index rect_coords 1 - stroke_width then stroke_color
      else if x gl_FragCoord \<le> vec4_index rect_coords 0 + stroke_width then stroke_color
      else if y gl_FragCoord \<le> y frame_size - vec4_index rect_coords 3 + stroke_width then stroke_color
      else if y gl_FragCoord \<ge> y frame_size - vec4_index rect_coords 2 - stroke_width then stroke_color
      else color)"

text \<open>
  The vocabulary of the specification. \<open>rect_coords = (x1, x2, y1, y2)\<close>, as the comment
  on the uniform says. In fragment space the vertical axis is flipped, so the rectangle's
  top edge \<open>y1\<close> lies at \<open>frame_size.y - y1\<close> and its bottom edge \<open>y2\<close> at
  \<open>frame_size.y - y2\<close>.
\<close>

definition rect_x1 :: "vec4 \<Rightarrow> real" where
  "rect_x1 rect_coords = vec4_index rect_coords 0"

definition rect_x2 :: "vec4 \<Rightarrow> real" where
  "rect_x2 rect_coords = vec4_index rect_coords 1"

definition rect_y1 :: "vec4 \<Rightarrow> real" where
  "rect_y1 rect_coords = vec4_index rect_coords 2"

definition rect_y2 :: "vec4 \<Rightarrow> real" where
  "rect_y2 rect_coords = vec4_index rect_coords 3"

definition top_edge :: "vec4 \<Rightarrow> vec4 \<Rightarrow> real" where
  "top_edge frame_size rect_coords = y frame_size - rect_y1 rect_coords"

definition bottom_edge :: "vec4 \<Rightarrow> vec4 \<Rightarrow> real" where
  "bottom_edge frame_size rect_coords = y frame_size - rect_y2 rect_coords"


text \<open>The four edge tests: a fragment that passes one of them is in the stroke band.\<close>

definition in_stroke_band :: "vec4 \<Rightarrow> vec4 \<Rightarrow> real \<Rightarrow> vec4 \<Rightarrow> bool" where
  "in_stroke_band frame_size rect_coords stroke_width frag \<longleftrightarrow>
     x frag \<le> rect_x1 rect_coords + stroke_width \<or>
     x frag \<ge> rect_x2 rect_coords - stroke_width \<or>
     y frag \<ge> top_edge frame_size rect_coords - stroke_width \<or>
     y frag \<le> bottom_edge frame_size rect_coords + stroke_width"

text \<open>A fragment inside the rectangle, in fragment space.\<close>

definition inside_rect :: "vec4 \<Rightarrow> vec4 \<Rightarrow> vec4 \<Rightarrow> bool" where
  "inside_rect frame_size rect_coords frag \<longleftrightarrow>
     rect_x1 rect_coords \<le> x frag \<and> x frag \<le> rect_x2 rect_coords \<and>
     bottom_edge frame_size rect_coords \<le> y frag \<and> y frag \<le> top_edge frame_size rect_coords"

definition red :: vec4 where
  "red = \<lparr>x = 1, y = 0, z = 0, w = 1\<rparr>"

definition black :: vec4 where
  "black = \<lparr>x = 0, y = 0, z = 0, w = 1\<rparr>"

definition vec2 :: "real \<Rightarrow> real \<Rightarrow> vec4" where
  "vec2 a b = \<lparr>x = a, y = b, z = 0, w = 0\<rparr>"

definition rect :: "real \<Rightarrow> real \<Rightarrow> real \<Rightarrow> real \<Rightarrow> vec4" where
  "rect x1 x2 y1 y2 = \<lparr>x = x1, y = x2, z = y1, w = y2\<rparr>"

text \<open>
  The shader never inspects the two colours, so which of them a fragment gets is read off
  with two different ones.
\<close>

definition classified_stroke :: "vec4 \<Rightarrow> vec4 \<Rightarrow> real \<Rightarrow> vec4 \<Rightarrow> bool" where
  "classified_stroke frame_size rect_coords stroke_width frag \<longleftrightarrow>
     main frame_size rect_coords stroke_width red black frag = black"

text \<open>
  Device pixels. The pixel in column \<open>i\<close> and row \<open>j\<close> is shaded at its centre,
  \<^verbatim>\<open>gl_FragCoord = (i + 0.5, j + 0.5)\<close>. A frame and a rectangle on the pixel grid have
  whole numbers as coordinates. A stroke pixel is a pixel inside the rectangle that the
  shader colours with the stroke colour; \<open>stroke_columns\<close> are the columns of the stroke
  pixels of one pixel row, \<open>stroke_rows\<close> the rows of the stroke pixels of one pixel
  column.
\<close>

definition pixel_center :: "int \<Rightarrow> int \<Rightarrow> vec4" where
  "pixel_center i j = vec2 (real_of_int i + 1 / 2) (real_of_int j + 1 / 2)"

definition grid_frame :: "int \<Rightarrow> int \<Rightarrow> vec4" where
  "grid_frame W H = vec2 (real_of_int W) (real_of_int H)"

definition grid_rect :: "int \<Rightarrow> int \<Rightarrow> int \<Rightarrow> int \<Rightarrow> vec4" where
  "grid_rect X1 X2 Y1 Y2 = rect (real_of_int X1) (real_of_int X2) (real_of_int Y1) (real_of_int Y2)"

definition stroke_pixel :: "vec4 \<Rightarrow> vec4 \<Rightarrow> real \<Rightarrow> int \<Rightarrow> int \<Rightarrow> bool" where
  "stroke_pixel frame_size rect_coords stroke_width i j \<longleftrightarrow>
     inside_rect frame_size rect_coords (pixel_center i j) \<and>
     classified_stroke frame_size rect_coords stroke_width (pixel_center i j)"

definition stroke_columns :: "vec4 \<Rightarrow> vec4 \<Rightarrow> real \<Rightarrow> int \<Rightarrow> int set" where
  "stroke_columns frame_size rect_coords stroke_width j =
     {i. stroke_pixel frame_size rect_coords stroke_width i j}"

definition stroke_rows :: "vec4 \<Rightarrow> vec4 \<Rightarrow> real \<Rightarrow> int \<Rightarrow> int set" where
  "stroke_rows frame_size rect_coords stroke_width i =
     {j. stroke_pixel frame_size rect_coords stroke_width i j}"

section \<open>Go strings\<close>

text \<open>
  A Go \<^verbatim>\<open>string\<close> is a sequence of bytes, as \<^typ>\<open>string\<close> is. \<open>Split s sep\<close> is
  \<^verbatim>\<open>strings.Split\<close> for a one-byte separator (the empty string splits into one empty
  field), \<open>Join\<close> is \<^verbatim>\<open>strings.Join\<close>, and \<open>slice s i j\<close> is the slice expression
  \<^verbatim>\<open>s[i:j]\<close> for \<open>i \<le> j \<le> len(s)\<close>.
\<close>

fun Split :: "string \<Rightarrow> char \<Rightarrow> string list" where
  "Split [] sep = [[]]"
| "Split (c # s) sep =
     (if c = sep then [] # Split s sep
      else (case Split s sep of [] \<Rightarrow> [[c]] | f # fs \<Rightarrow> (c # f) # fs))"

fun Join :: "string list \<Rightarrow> string \<Rightarrow> string" where
  "Join [] sep = []"
| "Join [a] sep = a"
| "Join (a # b # r) sep = a @ sep @ Join (b # r) sep"

definition slice :: "string \<Rightarrow> nat \<Rightarrow> nat \<Rightarrow> string" where
  "slice s i j = take (j - i) (drop i s)"

section \<open>The build command\<close>

text \<open>
  Package \<^verbatim>\<open>commands\<close>: \<^verbatim>\<open>Builder\<close>, \<^verbatim>\<open>Build\<close>, \<^verbatim>\<open>checkVersion\<close>, \<^verbatim>\<open>isWeb\<close>,
  \<^verbatim>\<open>checkGoVersion\<close>, \<^verbatim>\<open>build\<close> and \<^verbatim>\<open>targetOS\<close>.

  A Go \<^verbatim>\<open>error\<close> is a value of \<open>error\<close>: one constructor for each \<^verbatim>\<open>fmt.Errorf\<close> of the
  package (carrying the values it formats) and \<open>OsError\<close> for the errors that
  \<^verbatim>\<open>os.Stat\<close> and the runner hand back.
\<close>

datatype error =
  OsError string
| NotADirectory
| InvalidVersionOutput string
| VersionMismatch string string

text \<open>
  Modelled from the spec: the \<^verbatim>\<open>runner\<close> interface and \<^verbatim>\<open>newCommand\<close> are not part of
  the sources at hand. The build tooling "invokes the platform toolchain"; a runner is
  the command it invokes together with what \<^verbatim>\<open>setDir\<close> and \<^verbatim>\<open>setEnv\<close> stored in it.
\<close>

record runner =
  cmd :: string
  dir :: string
  env :: "string list"

definition newCommand :: "string \<Rightarrow> runner" where
  "newCommand prog = \<lparr>cmd = prog, dir = [], env = []\<rparr>"

record Builder =
  os :: string
  srcdir :: string
  target :: string
  goPackage :: string
  release :: bool
  tags :: "string list"
  tagsToParse :: string
  runner :: "runner option"

text \<open>
  What the command reads from outside the program: the file system (\<^verbatim>\<open>os.Stat\<close> gives
  an error or whether the path is a directory), the process environment, the host
  \<^verbatim>\<open>runtime.GOOS\<close>, what running the toolchain returns, and the version library
  (\<^verbatim>\<open>version.Normalize\<close>, and \<^verbatim>\<open>Match\<close> of the constraint group built from a
  constraint string).
\<close>

record world =
  os_Stat :: "string \<Rightarrow> error + bool"
  os_Environ :: "string list"
  os_LookupEnv :: "string \<Rightarrow> string option"
  runtime_GOOS :: string
  runOutput :: "runner \<Rightarrow> string list \<Rightarrow> string \<times> error option"
  version_Normalize :: "string \<Rightarrow> string"
  version_Match :: "string \<Rightarrow> string \<Rightarrow> bool"

text \<open>
  What a run of \<^verbatim>\<open>Build\<close> leaves behind: the error it returns, the builder as mutated,
  every \<^verbatim>\<open>runOutput\<close> call in order (the runner as configured at the call, and the
  arguments), and the lines printed to standard error.
\<close>

record outcome =
  err :: "error option"
  builder :: Builder
  calls :: "(runner \<times> string list) list"
  stderr :: "string list"

text \<open>
  The tests of the \<^verbatim>\<open>if\<close> are joined by \<^verbatim>\<open>||\<close>, which stops at the first true one, so
  \<^verbatim>\<open>split[2]\<close> is only read when there are four fields.
\<close>

definition checkVersion :: "world \<Rightarrow> string \<Rightarrow> string \<Rightarrow> error option" where
  "checkVersion wd output versionConstraint =
     (let split = Split output CHR '' '' in
      if length split \<noteq> 4 \<or> split ! 0 \<noteq> ''go'' \<or> split ! 1 \<noteq> ''version'' \<or>
         length (split ! 2) < 5 \<or> slice (split ! 2) 0 2 \<noteq> ''go''
      then Some (InvalidVersionOutput output)
      else
        let normalized = version_Normalize wd (slice (split ! 2) 2 (length (split ! 2) - 2)) in
        if \<not> version_Match wd versionConstraint normalized
        then Some (VersionMismatch versionConstraint normalized)
        else None)"

definition isWeb :: "string \<Rightarrow> bool" where
  "isWeb goos \<longleftrightarrow> goos = ''gopherjs'' \<or> goos = ''wasm''"

text \<open>The version constraint is a pointer: \<open>None\<close> is \<^verbatim>\<open>nil\<close>.\<close>

definition checkGoVersion ::
  "world \<Rightarrow> runner \<Rightarrow> string option \<Rightarrow> error option \<times> (runner \<times> string list) list \<times> string list" where
  "checkGoVersion wd r versionConstraint =
     (case versionConstraint of
        None \<Rightarrow> (None, [], [])
      | Some c \<Rightarrow>
          (case runOutput wd r [''version''] of
             (goVersion, Some e) \<Rightarrow> (Some e, [(r, [''version''])], [goVersion @ ''\<newline>''])
           | (goVersion, None) \<Rightarrow> (checkVersion wd goVersion c, [(r, [''version''])], [])))"

definition targetOS :: "world \<Rightarrow> string" where
  "targetOS wd = (case os_LookupEnv wd ''GOOS'' of Some osEnv \<Rightarrow> osEnv | None \<Rightarrow> runtime_GOOS wd)"

text \<open>
  The body of \<^verbatim>\<open>build\<close>, in its order: the target OS, the runner, the argument list,
  the environment and the version constraint, then the version check and the run.
\<close>

definition build_goos :: "world \<Rightarrow> Builder \<Rightarrow> string" where
  "build_goos wd b = (let goos = os b in if goos = [] then targetOS wd else goos)"

definition build_runner :: "string \<Rightarrow> Builder \<Rightarrow> runner" where
  "build_runner goos b =
     (case runner b of
        None \<Rightarrow> if goos \<noteq> ''gopherjs'' then newCommand ''go'' else newCommand ''gopherjs''
      | Some r \<Rightarrow> r)"

definition build_args :: "string \<Rightarrow> Builder \<Rightarrow> string list" where
  "build_args goos b =
     (let args = [''build''];
          args = (if \<not> isWeb goos then
                    if goos = ''windows'' then
                      if release b then args @ [''-ldflags'', ''-s -w -H=windowsgui'']
                      else args @ [''-ldflags'', ''-H=windowsgui'']
                    else if release b then args @ [''-ldflags'', ''-s -w'']
                    else args
                  else args);
          args = (if target b \<noteq> [] then args @ [''-o'', target b] else args);
          tags = tags b;
          tags = (if release b then tags @ [''release''] else tags);
          args = (if length tags > 0 then
                    (if goos = ''gopherjs'' then args @ [''--tags'']
                     else args @ [''-tags'']) @ [Join tags '','']
                  else args);
          args = (if goPackage b \<noteq> [] then args @ [goPackage b] else args)
      in args)"

definition build_env :: "world \<Rightarrow> string \<Rightarrow> string list" where
  "build_env wd goos =
     (let env = os_Environ wd;
          env = (if goos = ''darwin''
                 then env @ [''CGO_CFLAGS=-mmacosx-version-min=10.11'',
                             ''CGO_LDFLAGS=-mmacosx-version-min=10.11'']
                 else env);
          env = (if \<not> isWeb goos then env @ [''CGO_ENABLED=1''] else env);
          env = (if goos \<noteq> ''ios'' \<and> goos \<noteq> ''android'' \<and> \<not> isWeb goos then env @ [''GOOS='' @ goos]
                 else if goos = ''wasm'' then env @ [''GOARCH=wasm''] @ [''GOOS=js'']
                 else env)
      in env)"

definition build_versionConstraint :: "string \<Rightarrow> string option" where
  "build_versionConstraint goos =
     (if goos \<noteq> ''ios'' \<and> goos \<noteq> ''android'' \<and> \<not> isWeb goos then None
      else if goos = ''wasm'' then Some ''>=1.17''
      else None)"

definition build :: "world \<Rightarrow> Builder \<Rightarrow> outcome" where
  "build wd b =
     (let goos = build_goos wd b;
          r = build_runner goos b;
          b = b\<lparr>runner := Some r\<rparr>;
          args = build_args goos b;
          env = build_env wd goos;
          versionConstraint = build_versionConstraint goos
      in case checkGoVersion wd r versionConstraint of
           (Some e, cs, errs) \<Rightarrow> \<lparr>err = Some e, builder = b, calls = cs, stderr = errs\<rparr>
         | (None, cs, errs) \<Rightarrow>
             let r = r\<lparr>dir := srcdir b\<rparr>;
                 r = r\<lparr>env := env\<rparr>;
                 b = b\<lparr>runner := Some r\<rparr>
             in (case runOutput wd r args of
                   (out, Some e) \<Rightarrow>
                     \<lparr>err = Some e, builder = b, calls = cs @ [(r, args)],
                      stderr = errs @ [out @ ''\<newline>'']\<rparr>
                 | (out, None) \<Rightarrow>
                     \<lparr>err = None, builder = b, calls = cs @ [(r, args)], stderr = errs\<rparr>))"

definition Build :: "world \<Rightarrow> Builder \<Rightarrow> outcome" where
  "Build wd b =
     (let failed =
            (if srcdir b \<noteq> [] then
               (case os_Stat wd (srcdir b) of
                  Inl e \<Rightarrow> Some e
                | Inr isDir \<Rightarrow> if \<not> isDir then Some NotADirectory else None)
             else None)
      in case failed of
           Some e \<Rightarrow> \<lparr>err = Some e, builder = b, calls = [], stderr = []\<rparr>
         | None \<Rightarrow>
             let b = (if tagsToParse b \<noteq> [] then b\<lparr>tags := Split (tagsToParse b) CHR '',''\<rparr> else b)
             in build wd b)"

section \<open>Logging\<close>

text \<open>
  Modelled from the spec: \<^verbatim>\<open>fyne.LogError\<close> is not part of the sources at hand. A call
  \<^verbatim>\<open>fyne.LogError(reason, err)\<close> and a call \<^verbatim>\<open>log.Println(msg)\<close> each append one entry
  to the log, which the functions below take and return; \<open>None\<close> is a \<^verbatim>\<open>nil\<close> error.
\<close>

datatype 'e log_entry = LogError string "'e option" | Println string

section \<open>The configurable test theme\<close>

text \<open>
  \<^verbatim>\<open>test/theme.go\<close>. The colour and size names are strings; the text style, the colour
  and the font resource are left open. A colour or a font is an interface value, so a
  map may also store \<^verbatim>\<open>nil\<close> (\<open>Some None\<close>). Reading a Go map at a missing key gives the
  zero value of the value type: \<^verbatim>\<open>nil\<close> for an interface, \<open>0\<close> for a \<^verbatim>\<open>float32\<close>
  (idealised as \<^typ>\<open>real\<close>).
\<close>

record ('c, 'r, 'st) configurableTheme =
  colors :: "string \<rightharpoonup> 'c option"
  fonts :: "'st \<rightharpoonup> 'r option"
  name :: string
  sizes :: "string \<rightharpoonup> real"

definition index_nilable :: "('k \<rightharpoonup> 'v option) \<Rightarrow> 'k \<Rightarrow> 'v option" where
  "index_nilable m k = (case m k of None \<Rightarrow> None | Some v \<Rightarrow> v)"

definition index_float :: "('k \<rightharpoonup> real) \<Rightarrow> 'k \<Rightarrow> real" where
  "index_float m k = (case m k of None \<Rightarrow> 0 | Some v \<Rightarrow> v)"

definition Color ::
  "('c, 'r, 'st) configurableTheme \<Rightarrow> string \<Rightarrow> 'v \<Rightarrow> 'e log_entry list \<Rightarrow> 'c option \<times> 'e log_entry list" where
  "Color t n variant logs =
     (let logs = (if index_nilable (colors t) n = None
                 then logs @ [LogError (''color '' @ n @ '' not defined in theme '' @ name t) None]
                 else logs)
      in (index_nilable (colors t) n, logs))"

text \<open>\<open>sharp_v\<close> is the \<^verbatim>\<open>%#v\<close> rendering of a text style by \<^verbatim>\<open>fmt.Sprintf\<close>.\<close>

definition Font ::
  "('st \<Rightarrow> string) \<Rightarrow> ('c, 'r, 'st) configurableTheme \<Rightarrow> 'st \<Rightarrow> 'e log_entry list \<Rightarrow> 'r option \<times> 'e log_entry list" where
  "Font sharp_v t style logs =
     (let logs = (if index_nilable (fonts t) style = None
                 then logs @ [LogError (''font for style '' @ sharp_v style @ '' not defined in theme '' @ name t) None]
                 else logs)
      in (index_nilable (fonts t) style, logs))"

definition Size ::
  "('c, 'r, 'st) configurableTheme \<Rightarrow> string \<Rightarrow> 'e log_entry list \<Rightarrow> real \<times> 'e log_entry list" where
  "Size t s logs =
     (let logs = (if index_float (sizes t) s = 0
                 then logs @ [LogError (''size '' @ s @ '' not defined in theme '' @ name t) None]
                 else logs)
      in (index_float (sizes t) s, logs))"

section \<open>Localisation with a fallback\<close>

text \<open>
  \<^verbatim>\<open>lang/lang.go\<close>. The i18n localizer and \<^verbatim>\<open>text/template\<close> are libraries: what
  \<^verbatim>\<open>localizer.Localize\<close> returns for a configuration, whether \<^verbatim>\<open>Parse\<close> accepts a
  text, and what \<^verbatim>\<open>Execute\<close> writes to the builder (and the error it returns) are taken
  as given. The variadic \<^verbatim>\<open>data ...any\<close> is a list whose elements may be \<^verbatim>\<open>nil\<close>.
\<close>

record 'd LocalizeConfig =
  ID :: string
  Other :: string
  PluralCount :: "int option"
  TemplateData :: "'d option"

record ('d, 't, 'e) lang_deps =
  Localize :: "'d LocalizeConfig \<Rightarrow> string \<times> 'e option"
  template_Parse :: "string \<Rightarrow> string \<Rightarrow> 'e + 't"
  template_Execute :: "'t \<Rightarrow> 'd option \<Rightarrow> string \<times> 'e option"

definition fallbackWithData ::
  "('d, 't, 'e) lang_deps \<Rightarrow> string \<Rightarrow> string \<Rightarrow> 'd option \<Rightarrow> 'e log_entry list
     \<Rightarrow> string \<times> 'e log_entry list" where
  "fallbackWithData deps key fallback data logs =
     (case template_Parse deps key fallback of
        Inl e \<Rightarrow> (fallback, logs @ [Println ''Could not parse fallback template''])
      | Inr t \<Rightarrow> (case template_Execute deps t data of (str, _) \<Rightarrow> (str, logs)))"

definition LocalizeKey ::
  "('d, 't, 'e) lang_deps \<Rightarrow> string \<Rightarrow> string \<Rightarrow> 'd option list \<Rightarrow> 'e log_entry list
     \<Rightarrow> string \<times> 'e log_entry list" where
  "LocalizeKey deps key fallback data logs =
     (let d0 = (if length data > 0 then data ! 0 else None) in
      case Localize deps \<lparr>ID = key, Other = fallback, PluralCount = None, TemplateData = d0\<rparr> of
        (ret, Some e) \<Rightarrow>
          fallbackWithData deps key fallback d0 (logs @ [LogError ''Translation failure'' (Some e)])
      | (ret, None) \<Rightarrow> (ret, logs))"

definition LocalizePluralKey ::
  "('d, 't, 'e) lang_deps \<Rightarrow> string \<Rightarrow> string \<Rightarrow> int \<Rightarrow> 'd option list \<Rightarrow> 'e log_entry list
     \<Rightarrow> string \<times> 'e log_entry list" where
  "LocalizePluralKey deps key fallback count data logs =
     (let d0 = (if length data > 0 then data ! 0 else None) in
      case Localize deps \<lparr>ID = key, Other = fallback, PluralCount = Some count, TemplateData = d0\<rparr> of
        (ret, Some e) \<Rightarrow>
          fallbackWithData deps key fallback d0 (logs @ [LogError ''Translation failure'' (Some e)])
      | (ret, None) \<Rightarrow> (ret, logs))"

section \<open>The vocabulary of the specification\<close>

text \<open>
  The build command: the arguments around the tags argument, the flag that introduces
  the tags, and a source directory that passes the check of \<^verbatim>\<open>Build\<close>.
\<close>

definition ldflags_args :: "string \<Rightarrow> bool \<Rightarrow> string list" where
  "ldflags_args goos rel =
     (if isWeb goos then []
      else if goos = ''windows'' then [''-ldflags'', if rel then ''-s -w -H=windowsgui'' else ''-H=windowsgui'']
      else if rel then [''-ldflags'', ''-s -w''] else [])"

definition args_around :: "string \<Rightarrow> Builder \<Rightarrow> string list \<Rightarrow> string list" where
  "args_around goos b tag_args =
     [''build''] @ ldflags_args goos (release b) @
     (if target b = [] then [] else [''-o'', target b]) @
     tag_args @
     (if goPackage b = [] then [] else [goPackage b])"

definition tags_flag :: "string \<Rightarrow> string" where
  "tags_flag goos = (if goos = ''gopherjs'' then ''--tags'' else ''-tags'')"

definition src_ok :: "world \<Rightarrow> Builder \<Rightarrow> bool" where
  "src_ok wd b \<longleftrightarrow> srcdir b = [] \<or> os_Stat wd (srcdir b) = Inr True"

text \<open>
  The \<^verbatim>\<open>go version\<close> query succeeds and its output passes \<^verbatim>\<open>checkVersion\<close> against
  \<open>>=1.17\<close>. The build is reached when the source directory passes and, for the wasm
  target, the version is accepted; the wasm target is the only one whose build is
  preceded by the version query.
\<close>

definition go_version_accepted :: "world \<Rightarrow> Builder \<Rightarrow> bool" where
  "go_version_accepted wd b \<longleftrightarrow>
     (case runOutput wd (build_runner (build_goos wd b) b) [''version''] of
        (out, Some e) \<Rightarrow> False
      | (out, None) \<Rightarrow> checkVersion wd out ''>=1.17'' = None)"

definition build_reached :: "world \<Rightarrow> Builder \<Rightarrow> bool" where
  "build_reached wd b \<longleftrightarrow>
     src_ok wd b \<and> (build_goos wd b = ''wasm'' \<longrightarrow> go_version_accepted wd b)"

definition version_query :: "world \<Rightarrow> Builder \<Rightarrow> string list list" where
  "version_query wd b = (if build_goos wd b = ''wasm'' then [[''version'']] else [])"

text \<open>
  The target OS as the specification words it: the flag when non-empty, else the
  \<^verbatim>\<open>GOOS\<close> environment variable when set, else the host's.
\<close>

definition effective_goos :: "world \<Rightarrow> Builder \<Rightarrow> string" where
  "effective_goos wd b =
     (if os b \<noteq> [] then os b
      else case os_LookupEnv wd ''GOOS'' of Some v \<Rightarrow> v | None \<Rightarrow> runtime_GOOS wd)"

text \<open>
  An output of \<^verbatim>\<open>go version\<close> of the accepted shape, with third field \<open>f3\<close> and fourth
  field \<open>f4\<close>; and the third field without its first two and its last two characters.
\<close>

definition go_version_shape :: "string \<Rightarrow> string \<Rightarrow> string \<Rightarrow> bool" where
  "go_version_shape output f3 f4 \<longleftrightarrow>
     output = ''go version '' @ f3 @ '' '' @ f4 \<and>
     CHR '' '' \<notin> set f3 \<and> CHR '' '' \<notin> set f4 \<and>
     5 \<le> length f3 \<and> take 2 f3 = ''go''"

definition strip_version :: "string \<Rightarrow> string" where
  "strip_version f3 = drop 2 (butlast (butlast f3))"

text \<open>The first data argument, and the fallback with the template data applied.\<close>

definition first_data :: "'d option list \<Rightarrow> 'd option" where
  "first_data data = (case data of [] \<Rightarrow> None | d # _ \<Rightarrow> d)"

definition fallback_applied :: "('d, 't, 'e) lang_deps \<Rightarrow> string \<Rightarrow> string \<Rightarrow> 'd option \<Rightarrow> string" where
  "fallback_applied deps key fallback d =
     (case template_Parse deps key fallback of
        Inl e \<Rightarrow> fallback
      | Inr t \<Rightarrow> fst (template_Execute deps t d))"

section \<open>Example inputs\<close>

text \<open>
  A host with a directory \<open>app\<close> and a file \<open>main.go\<close>, \<^verbatim>\<open>GOOS=windows\<close> in the
  environment, a toolchain that reports go1.17.3, and a version library reduced to what
  the examples need.
\<close>

definition demo_world :: world where
  "demo_world =
     \<lparr>os_Stat = (\<lambda>p. if p = ''app'' then Inr True
                     else if p = ''main.go'' then Inr False
                     else Inl (OsError ''no such file or directory'')),
      os_Environ = [''HOME=/root''],
      os_LookupEnv = (\<lambda>k. if k = ''GOOS'' then Some ''windows'' else None),
      runtime_GOOS = ''linux'',
      runOutput = (\<lambda>r a. if a = [''version''] then (''go version go1.17.3 linux/amd64'', None)
                         else ([], None)),
      version_Normalize = (\<lambda>v. v),
      version_Match = (\<lambda>c v. c = ''>=1.17'' \<and> v = ''1.17'')\<rparr>"

text \<open>The same host with a toolchain that reports go1.16.5.\<close>

definition old_go_world :: world where
  "old_go_world =
     demo_world\<lparr>runOutput :=
       (\<lambda>r a. if a = [''version''] then (''go version go1.16.5 linux/amd64'', None)
              else ([], None))\<rparr>"

definition demo_builder :: Builder where
  "demo_builder =
     \<lparr>os = [], srcdir = ''app'', target = ''out.exe'', goPackage = [], release = True,
      tags = [], tagsToParse = ''gles,debug'', runner = None\<rparr>"

definition demo_theme :: "(nat, string, bool) configurableTheme" where
  "demo_theme =
     \<lparr>colors = [''background'' \<mapsto> Some 68], fonts = [False \<mapsto> Some ''regular.ttf''],
      name = ''Default Test Theme'', sizes = [''padding'' \<mapsto> 4]\<rparr>"

text \<open>
  A localizer that finds no message, and a template engine reduced to what the examples
  need: it rejects the text \<open>{{\<close> and otherwise writes the text followed by the data.
\<close>

definition demo_lang :: "(string, string, string) lang_deps" where
  "demo_lang =
     \<lparr>Localize = (\<lambda>c. ([], Some ''message not found'')),
      template_Parse = (\<lambda>n s. if s = ''{{'' then Inl ''unclosed action'' else Inr s),
      template_Execute = (\<lambda>t d. (t @ (case d of None \<Rightarrow> [] | Some v \<Rightarrow> '' '' @ v), None))\<rparr>"

section \<open>Properties of the shader\<close>

lemmas rect_edges = rect_x1_def rect_x2_def rect_y1_def rect_y2_def top_edge_def bottom_edge_def

lemma main_cases:
  "main fs rc sw fill stroke frag = (if in_stroke_band fs rc sw frag then stroke else fill)"
  by (auto simp: main_def in_stroke_band_def rect_edges vec4_index_def Let_def)





lemma classified_color:
  "main fs rc sw fill stroke frag = (if classified_stroke fs rc sw frag then stroke else fill)"
  by (simp add: classified_stroke_def main_cases red_def black_def)

lemma half_le: "real_of_int i + 1 / 2 \<le> real_of_int a \<longleftrightarrow> i < a"
  by linarith

lemma le_half: "real_of_int a \<le> real_of_int i + 1 / 2 \<longleftrightarrow> a \<le> i"
  by linarith

lemma inside_pixel:
  "inside_rect (grid_frame W H) (grid_rect X1 X2 Y1 Y2) (pixel_center i j) \<longleftrightarrow>
     X1 \<le> i \<and> i < X2 \<and> H - Y2 \<le> j \<and> j < H - Y1"
  using half_le [of i X2] le_half [of X1 i] half_le [of j "H - Y1"] le_half [of "H - Y2" j]
  by (simp add: inside_rect_def rect_edges vec4_index_def grid_frame_def grid_rect_def
        pixel_center_def vec2_def rect_def)

lemma classified_pixel:
  "classified_stroke (grid_frame W H) (grid_rect X1 X2 Y1 Y2) (real N) (pixel_center i j) \<longleftrightarrow>
     i < X1 + int N \<or> X2 - int N \<le> i \<or> j < H - Y2 + int N \<or> H - Y1 - int N \<le> j"
  using half_le [of i "X1 + int N"] le_half [of "X2 - int N" i]
        half_le [of j "H - Y2 + int N"] le_half [of "H - Y1 - int N" j]
  by (simp add: classified_stroke_def main_cases in_stroke_band_def rect_edges vec4_index_def
        grid_frame_def grid_rect_def pixel_center_def vec2_def rect_def red_def black_def)

lemma stroke_pixel_grid:
  "stroke_pixel (grid_frame W H) (grid_rect X1 X2 Y1 Y2) (real N) i j \<longleftrightarrow>
     (X1 \<le> i \<and> i < X2 \<and> H - Y2 \<le> j \<and> j < H - Y1) \<and>
     (i < X1 + int N \<or> X2 - int N \<le> i \<or> j < H - Y2 + int N \<or> H - Y1 - int N \<le> j)"
  by (simp add: stroke_pixel_def inside_pixel classified_pixel)

lemma stroke_columns_middle:
  assumes "int N \<le> X2 - X1" and "H - Y2 + int N \<le> j" and "j < H - Y1 - int N"
  shows "stroke_columns (grid_frame W H) (grid_rect X1 X2 Y1 Y2) (real N) j =
           {X1 ..< X1 + int N} \<union> {X2 - int N ..< X2}"
  using assms by (auto simp: stroke_columns_def stroke_pixel_grid)

lemma stroke_rows_middle:
  assumes "int N \<le> Y2 - Y1" and "X1 + int N \<le> i" and "i < X2 - int N"
  shows "stroke_rows (grid_frame W H) (grid_rect X1 X2 Y1 Y2) (real N) i =
           {H - Y2 ..< H - Y2 + int N} \<union> {H - Y1 - int N ..< H - Y1}"
  using assms by (auto simp: stroke_rows_def stroke_pixel_grid)

lemma card_two_bands:
  assumes "2 * int N \<le> b - a"
  shows "card ({a ..< a + int N} \<union> {b - int N ..< b}) = 2 * N"
proof -
  have "{a ..< a + int N} \<inter> {b - int N ..< b} = {}" using assms by auto
  then have "card ({a ..< a + int N} \<union> {b - int N ..< b}) =
               card {a ..< a + int N} + card {b - int N ..< b}"
    by (simp add: card_Un_disjoint)
  then show ?thesis by simp
qed

text \<open>
  C2 (amended). For a frame and a rectangle on the pixel grid and a whole stroke width
  \<open>N \<ge> 0\<close>, a pixel is a stroke pixel exactly when it lies inside the rectangle and in
  one of its \<open>N\<close> leftmost or \<open>N\<close> rightmost pixel columns or its \<open>N\<close> bottom or \<open>N\<close>
  top pixel rows. So, when \<open>N\<close> is at most the width, the stroke pixels of a pixel row
  clear of the top and bottom bands are the \<open>N\<close> leftmost and the \<open>N\<close> rightmost pixels of
  the row (\<open>2 * N\<close> pixels when the two bands do not meet, none for \<open>N = 0\<close>), and
  likewise for the pixel columns clear of the left and right bands. Every pixel gets
  the stroke colour if it is classified stroke and the fill colour otherwise.
\<close>

theorem C2_pixel_border:
  "(stroke_pixel (grid_frame W H) (grid_rect X1 X2 Y1 Y2) (real N) i j \<longleftrightarrow>
      (X1 \<le> i \<and> i < X2 \<and> H - Y2 \<le> j \<and> j < H - Y1) \<and>
      (i < X1 + int N \<or> X2 - int N \<le> i \<or> j < H - Y2 + int N \<or> H - Y1 - int N \<le> j)) \<and>
   (int N \<le> X2 - X1 \<and> H - Y2 + int N \<le> j \<and> j < H - Y1 - int N \<longrightarrow>
      stroke_columns (grid_frame W H) (grid_rect X1 X2 Y1 Y2) (real N) j =
        {X1 ..< X1 + int N} \<union> {X2 - int N ..< X2} \<and>
      (2 * int N \<le> X2 - X1 \<longrightarrow>
         card (stroke_columns (grid_frame W H) (grid_rect X1 X2 Y1 Y2) (real N) j) = 2 * N)) \<and>
   (int N \<le> Y2 - Y1 \<and> X1 + int N \<le> i \<and> i < X2 - int N \<longrightarrow>
      stroke_rows (grid_frame W H) (grid_rect X1 X2 Y1 Y2) (real N) i =
        {H - Y2 ..< H - Y2 + int N} \<union> {H - Y1 - int N ..< H - Y1} \<and>
      (2 * int N \<le> Y2 - Y1 \<longrightarrow>
         card (stroke_rows (grid_frame W H) (grid_rect X1 X2 Y1 Y2) (real N) i) = 2 * N)) \<and>
   main (grid_frame W H) (grid_rect X1 X2 Y1 Y2) (real N) fill stroke (pixel_center i j) =
     (if classified_stroke (grid_frame W H) (grid_rect X1 X2 Y1 Y2) (real N) (pixel_center i j)
      then stroke else fill)"
proof (intro conjI impI)
  show "stroke_pixel (grid_frame W H) (grid_rect X1 X2 Y1 Y2) (real N) i j \<longleftrightarrow>
      (X1 \<le> i \<and> i < X2 \<and> H - Y2 \<le> j \<and> j < H - Y1) \<and>
      (i < X1 + int N \<or> X2 - int N \<le> i \<or> j < H - Y2 + int N \<or> H - Y1 - int N \<le> j)"
    by (rule stroke_pixel_grid)
next
  assume a: "int N \<le> X2 - X1 \<and> H - Y2 + int N \<le> j \<and> j < H - Y1 - int N"
  then show c: "stroke_columns (grid_frame W H) (grid_rect X1 X2 Y1 Y2) (real N) j =
        {X1 ..< X1 + int N} \<union> {X2 - int N ..< X2}"
    by (simp add: stroke_columns_middle)
  assume "2 * int N \<le> X2 - X1"
  then show "card (stroke_columns (grid_frame W H) (grid_rect X1 X2 Y1 Y2) (real N) j) = 2 * N"
    unfolding c by (rule card_two_bands)
next
  assume a: "int N \<le> Y2 - Y1 \<and> X1 + int N \<le> i \<and> i < X2 - int N"
  then show c: "stroke_rows (grid_frame W H) (grid_rect X1 X2 Y1 Y2) (real N) i =
        {H - Y2 ..< H - Y2 + int N} \<union> {H - Y1 - int N ..< H - Y1}"
    by (simp add: stroke_rows_middle)
  assume "2 * int N \<le> Y2 - Y1"
  then have "2 * int N \<le> (H - Y1) - (H - Y2)" by simp
  then show "card (stroke_rows (grid_frame W H) (grid_rect X1 X2 Y1 Y2) (real N) i) = 2 * N"
    unfolding c using card_two_bands [of N "H - Y1" "H - Y2"] by simp
next
  show "main (grid_frame W H) (grid_rect X1 X2 Y1 Y2) (real N) fill stroke (pixel_center i j) =
     (if classified_stroke (grid_frame W H) (grid_rect X1 X2 Y1 Y2) (real N) (pixel_center i j)
      then stroke else fill)"
    by (rule classified_color)
qed

theorem C2_pixel_border_witness:
  "stroke_pixel (grid_frame 100 50) (grid_rect 0 100 0 50) 2 1 25 \<and>
   \<not> stroke_pixel (grid_frame 100 50) (grid_rect 0 100 0 50) 2 2 25 \<and>
   stroke_columns (grid_frame 100 50) (grid_rect 0 100 0 50) 2 25 = {0 ..< 2} \<union> {98 ..< 100} \<and>
   card (stroke_columns (grid_frame 100 50) (grid_rect 0 100 0 50) 2 25) = 4 \<and>
   stroke_rows (grid_frame 100 50) (grid_rect 0 100 0 50) 2 50 = {0 ..< 2} \<union> {48 ..< 50} \<and>
   stroke_columns (grid_frame 100 50) (grid_rect 0 100 0 50) 0 25 = {} \<and>
   main (grid_frame 100 50) (grid_rect 0 100 0 50) 2 red black (pixel_center 1 25) = black \<and>
   main (grid_frame 100 50) (grid_rect 0 100 0 50) 2 red black (pixel_center 2 25) = red"
  using C2_pixel_border [of 100 50 0 100 0 50 2 1 25 red black]
        C2_pixel_border [of 100 50 0 100 0 50 2 2 25 red black]
        C2_pixel_border [of 100 50 0 100 0 50 2 50 25 red black]
        C2_pixel_border [of 100 50 0 100 0 50 0 50 25 red black]
        classified_pixel [of 100 50 0 100 0 50 2 1 25]
        classified_pixel [of 100 50 0 100 0 50 2 2 25]
  by simp

lemma stroke_columns_narrow:
  "stroke_columns (grid_frame 100 50) (grid_rect 0 10 0 50) 20 25 = {0 ..< 10}"
  using stroke_pixel_grid [of 100 50 0 10 0 50 20]
  by (auto simp: stroke_columns_def)

text \<open>
  C2 as stated fails in two ways. With \<open>stroke_width = 0\<close> and a left edge at \<open>x1 = 0.5\<close>,
  the pixel of column 0 lies inside the rectangle and is stroke-coloured: the border is
  not 0 pixels wide. With \<open>stroke_width = 20\<close> in a rectangle 10 pixels wide, a pixel row
  holds 10 stroke pixels, not 20 along each of the left and right edges.
\<close>

theorem C2_as_stated_counterexample:
  "rect_x1 (rect (1 / 2) (201 / 2) 0 50) \<le> rect_x2 (rect (1 / 2) (201 / 2) 0 50) \<and>
   rect_y1 (rect (1 / 2) (201 / 2) 0 50) \<le> rect_y2 (rect (1 / 2) (201 / 2) 0 50) \<and>
   stroke_pixel (vec2 100 50) (rect (1 / 2) (201 / 2) 0 50) 0 0 25 \<and>
   card (stroke_columns (grid_frame 100 50) (grid_rect 0 10 0 50) 20 25) = 10"
  by (simp add: stroke_columns_narrow stroke_pixel_def classified_stroke_def inside_rect_def
        main_def pixel_center_def rect_edges vec4_index_def vec2_def rect_def red_def black_def)



text \<open>
  C4. With \<open>rect_coords = (0, 100, 0, 50)\<close>, \<open>stroke_width = 2\<close>, \<open>frame_size = (100, 50)\<close>,
  fill red and stroke black: a fragment within 2 pixels of the line of any of the four
  edges is black, and a fragment inside the rectangle that is more than 2 pixels away from
  all four edges is red.
\<close>

theorem C4_scenario:
  "(\<bar>x frag - 0\<bar> \<le> 2 \<or> \<bar>x frag - 100\<bar> \<le> 2 \<or> \<bar>y frag - 0\<bar> \<le> 2 \<or> \<bar>y frag - 50\<bar> \<le> 2
      \<longrightarrow> main (vec2 100 50) (rect 0 100 0 50) 2 red black frag = black) \<and>
   (inside_rect (vec2 100 50) (rect 0 100 0 50) frag \<and>
    \<bar>x frag - 0\<bar> > 2 \<and> \<bar>x frag - 100\<bar> > 2 \<and> \<bar>y frag - 0\<bar> > 2 \<and> \<bar>y frag - 50\<bar> > 2
      \<longrightarrow> main (vec2 100 50) (rect 0 100 0 50) 2 red black frag = red)"
  by (auto simp: main_cases in_stroke_band_def inside_rect_def rect_edges vec4_index_def
        vec2_def rect_def)

theorem C4_scenario_witness:
  "main (vec2 100 50) (rect 0 100 0 50) 2 red black (vec2 99.5 0.5) = black \<and>
   main (vec2 100 50) (rect 0 100 0 50) 2 red black (vec2 50.5 48.5) = black \<and>
   main (vec2 100 50) (rect 0 100 0 50) 2 red black (vec2 2.5 2.5) = red"
  using C4_scenario [of "vec2 99.5 0.5"] C4_scenario [of "vec2 50.5 48.5"]
        C4_scenario [of "vec2 2.5 2.5"]
  by (simp add: inside_rect_def rect_edges vec4_index_def vec2_def rect_def)

section \<open>Properties of the string functions\<close>

lemma Split_nonempty: "Split s c \<noteq> []"
  by (induction s) (auto split: list.splits)

lemma Join_Cons_nonempty: "r \<noteq> [] \<Longrightarrow> Join (a # r) sep = a @ sep @ Join r sep"
  by (cases r) auto

lemma Join_Split: "Join (Split s c) [c] = s"
proof (induction s)
  case Nil show ?case by simp
next
  case (Cons a s)
  show ?case
  proof (cases "a = c")
    case True
    then show ?thesis using Cons Split_nonempty [of s c] by (simp add: Join_Cons_nonempty)
  next
    case False
    obtain f fs where sp: "Split s c = f # fs" using Split_nonempty [of s c] by (cases "Split s c") auto
    show ?thesis using False Cons sp by (cases fs) auto
  qed
qed

lemma Join_snoc: "ts \<noteq> [] \<Longrightarrow> Join (ts @ [t]) sep = Join ts sep @ sep @ t"
  by (induction ts sep rule: Join.induct) auto

lemma Split_no_sep: "c \<notin> set a \<Longrightarrow> Split a c = [a]"
  by (induction a) auto

lemma Split_append: "c \<notin> set a \<Longrightarrow> Split (a @ c # b) c = a # Split b c"
  by (induction a) auto

lemma Split_elems: "f \<in> set (Split s c) \<Longrightarrow> c \<notin> set f"
proof (induction s arbitrary: f)
  case Nil then show ?case by simp
next
  case (Cons a s)
  obtain g gs where sp: "Split s c = g # gs"
    using Split_nonempty [of s c] by (cases "Split s c") auto
  show ?case
  proof (cases "a = c")
    case True
    with Cons show ?thesis by auto
  next
    case False
    with Cons.prems sp have "f = a # g \<or> f \<in> set gs" by auto
    then show ?thesis using Cons.IH sp False by auto
  qed
qed

lemma Split_four:
  "Split s c = [a, b, f3, f4] \<longleftrightarrow>
     s = a @ c # b @ c # f3 @ c # f4 \<and> c \<notin> set a \<and> c \<notin> set b \<and> c \<notin> set f3 \<and> c \<notin> set f4"
proof
  assume sp: "Split s c = [a, b, f3, f4]"
  have "s = Join (Split s c) [c]" by (simp add: Join_Split)
  then have "s = a @ c # b @ c # f3 @ c # f4" by (simp add: sp)
  moreover have "c \<notin> set a" "c \<notin> set b" "c \<notin> set f3" "c \<notin> set f4"
    using Split_elems [of a s c] Split_elems [of b s c] Split_elems [of f3 s c]
      Split_elems [of f4 s c] by (simp_all add: sp)
  ultimately show "s = a @ c # b @ c # f3 @ c # f4 \<and> c \<notin> set a \<and> c \<notin> set b \<and> c \<notin> set f3 \<and> c \<notin> set f4"
    by simp
next
  assume "s = a @ c # b @ c # f3 @ c # f4 \<and> c \<notin> set a \<and> c \<notin> set b \<and> c \<notin> set f3 \<and> c \<notin> set f4"
  then show "Split s c = [a, b, f3, f4]"
    by (simp add: Split_append Split_no_sep)
qed

section \<open>Properties of the build command\<close>

lemma build_args_shape:
  "build_args goos b =
     args_around goos b
       (let ts = tags b @ (if release b then [''release''] else [])
        in if ts = [] then [] else [tags_flag goos, Join ts '',''])"
  by (simp add: build_args_def args_around_def ldflags_args_def tags_flag_def Let_def)

lemma build_args_runner [simp]: "build_args goos (b\<lparr>runner := r\<rparr>) = build_args goos b"
  by (simp add: build_args_def cong: if_cong)

lemma build_goos_tags [simp]: "build_goos wd (b\<lparr>tags := t\<rparr>) = build_goos wd b"
  by (simp add: build_goos_def)

lemma checkGoVersion_None [simp]: "checkGoVersion wd r None = (None, [], [])"
  by (simp add: checkGoVersion_def)

lemma versionConstraint_wasm:
  "build_versionConstraint goos = (if goos = ''wasm'' then Some ''>=1.17'' else None)"
  by (auto simp: build_versionConstraint_def isWeb_def)

lemma Build_ok:
  "src_ok wd b \<Longrightarrow>
   Build wd b = build wd (if tagsToParse b \<noteq> [] then b\<lparr>tags := Split (tagsToParse b) CHR '',''\<rparr> else b)"
  by (auto simp: Build_def src_ok_def Let_def)

lemma builder_build_tags: "tags (builder (build wd b)) = tags b"
  by (simp add: build_def Let_def split: prod.splits option.splits)

lemma build_runner_tags [simp]: "build_runner goos (b\<lparr>tags := t\<rparr>) = build_runner goos b"
  by (simp add: build_runner_def)

lemma go_version_accepted_tags [simp]:
  "go_version_accepted wd (b\<lparr>tags := t\<rparr>) = go_version_accepted wd b"
  by (simp add: go_version_accepted_def)

lemma checkGoVersion_accepted:
  assumes "go_version_accepted wd b" and "build_goos wd b = g"
  shows "checkGoVersion wd (build_runner g b) (Some ''>=1.17'') =
           (None, [(build_runner g b, [''version''])], [])"
  using assms
  by (auto simp: go_version_accepted_def checkGoVersion_def split: prod.splits option.splits)

lemma build_calls_reached:
  assumes "build_goos wd b = ''wasm'' \<longrightarrow> go_version_accepted wd b"
  shows "map snd (calls (build wd b)) = version_query wd b @ [build_args (build_goos wd b) b]"
proof (cases "build_goos wd b = ''wasm''")
  case False
  then show ?thesis
    by (simp add: build_def version_query_def versionConstraint_wasm Let_def
          split: prod.splits option.splits)
next
  case True
  with assms have acc: "go_version_accepted wd b" by simp
  show ?thesis
    using True checkGoVersion_accepted [OF acc True]
    by (simp add: build_def version_query_def versionConstraint_wasm Let_def
          split: prod.splits option.splits)
qed

lemma Build_calls_reached:
  assumes "build_reached wd b"
  shows "map snd (calls (Build wd b)) =
           version_query wd b @
           [build_args (build_goos wd b)
              (if tagsToParse b \<noteq> [] then b\<lparr>tags := Split (tagsToParse b) CHR '',''\<rparr> else b)]"
proof -
  let ?b = "if tagsToParse b \<noteq> [] then b\<lparr>tags := Split (tagsToParse b) CHR '',''\<rparr> else b"
  have s: "src_ok wd b" and v: "build_goos wd b = ''wasm'' \<longrightarrow> go_version_accepted wd b"
    using assms by (simp_all add: build_reached_def)
  have g: "build_goos wd ?b = build_goos wd b" by simp
  have v': "build_goos wd ?b = ''wasm'' \<longrightarrow> go_version_accepted wd ?b" using v by simp
  have q: "version_query wd ?b = version_query wd b" by (simp add: version_query_def)
  show ?thesis
    using build_calls_reached [OF v'] by (simp only: Build_ok [OF s] g q)
qed

text \<open>
  C5 (amended). When the source directory passes the check of \<^verbatim>\<open>Build\<close> and
  \<open>tagsToParse\<close> is non-empty, \<^verbatim>\<open>Build\<close> stores its split on commas as the tag list.
  When moreover the build is reached (for the wasm target, the Go version is accepted),
  the toolchain is run, after the version query of the wasm target, with exactly one
  argument list: it holds the tags flag (\<open>--tags\<close> for gopherjs, \<open>-tags\<close> otherwise)
  followed by those tags joined by commas, with \<open>release\<close> appended when the release flag
  is set, that is \<open>tagsToParse\<close> itself, followed by \<open>,release\<close> for a release. When
  there is no tag at all, the argument list carries no tags flag.
\<close>

theorem C5_tags_argument:
  assumes "src_ok wd b"
  shows "(tagsToParse b \<noteq> [] \<longrightarrow>
            tags (builder (Build wd b)) = Split (tagsToParse b) CHR '','' \<and>
            Join (Split (tagsToParse b) CHR '','' @ (if release b then [''release''] else [])) '','' =
              tagsToParse b @ (if release b then '',release'' else []) \<and>
            (build_reached wd b \<longrightarrow>
               map snd (calls (Build wd b)) =
                 version_query wd b @
                 [args_around (build_goos wd b) b
                    [tags_flag (build_goos wd b),
                     Join (Split (tagsToParse b) CHR '','' @
                           (if release b then [''release''] else [])) '','']]))
       \<and> (tagsToParse b = [] \<and> tags b = [] \<and> \<not> release b \<and> build_reached wd b \<longrightarrow>
            map snd (calls (Build wd b)) =
              version_query wd b @ [args_around (build_goos wd b) b []])"
proof (intro conjI impI)
  assume t: "tagsToParse b \<noteq> []"
  show "tags (builder (Build wd b)) = Split (tagsToParse b) CHR '',''"
    using t by (simp add: Build_ok [OF assms] builder_build_tags)
  show "Join (Split (tagsToParse b) CHR '','' @ (if release b then [''release''] else [])) '','' =
          tagsToParse b @ (if release b then '',release'' else [])"
    using Join_Split [of "tagsToParse b" "CHR '',''"] Split_nonempty [of "tagsToParse b" "CHR '',''"]
    by (simp add: Join_snoc)
  assume r: "build_reached wd b"
  show "map snd (calls (Build wd b)) =
          version_query wd b @
          [args_around (build_goos wd b) b
             [tags_flag (build_goos wd b),
              Join (Split (tagsToParse b) CHR '','' @ (if release b then [''release''] else [])) '','']]"
    using Build_calls_reached [OF r] t Split_nonempty [of "tagsToParse b" "CHR '',''"]
    by (simp add: build_args_shape args_around_def Let_def cong: if_cong)
next
  assume a: "tagsToParse b = [] \<and> tags b = [] \<and> \<not> release b \<and> build_reached wd b"
  then have r: "build_reached wd b" by simp
  show "map snd (calls (Build wd b)) = version_query wd b @ [args_around (build_goos wd b) b []]"
    using Build_calls_reached [OF r] a
    by (simp add: build_args_shape args_around_def Let_def cong: if_cong)
qed

theorem C5_tags_argument_witness:
  "src_ok demo_world demo_builder \<and> tagsToParse demo_builder \<noteq> [] \<and>
   build_reached demo_world demo_builder \<and>
   build_reached demo_world (demo_builder\<lparr>os := ''wasm''\<rparr>) \<and>
   tags (builder (Build demo_world demo_builder)) = [''gles'', ''debug''] \<and>
   map snd (calls (Build demo_world demo_builder)) =
     [[''build'', ''-ldflags'', ''-s -w -H=windowsgui'', ''-o'', ''out.exe'',
       ''-tags'', ''gles,debug,release'']] \<and>
   map snd (calls (Build demo_world (demo_builder\<lparr>os := ''wasm''\<rparr>))) =
     [[''version''], [''build'', ''-o'', ''out.exe'', ''-tags'', ''gles,debug,release'']] \<and>
   map snd (calls (Build demo_world
       (demo_builder\<lparr>tagsToParse := [], release := False, os := ''gopherjs''\<rparr>))) =
     [[''build'', ''-o'', ''out.exe'']]"
  using C5_tags_argument [of demo_world demo_builder]
        C5_tags_argument [of demo_world "demo_builder\<lparr>os := ''wasm''\<rparr>"]
        C5_tags_argument [of demo_world "demo_builder\<lparr>tagsToParse := [], release := False, os := ''gopherjs''\<rparr>"]
  by (simp add: build_reached_def go_version_accepted_def version_query_def src_ok_def
        build_goos_def build_runner_def newCommand_def targetOS_def checkVersion_def slice_def
        args_around_def ldflags_args_def isWeb_def tags_flag_def demo_world_def demo_builder_def
        Let_def)

text \<open>
  C5 as stated fails in two ways. For a builder whose source directory is rejected,
  \<^verbatim>\<open>Build\<close> returns before the tags are split, and the toolchain is not run. For the
  wasm target with a Go version that is not accepted, the toolchain only receives the
  version query: no argument list with a tags argument is passed.
\<close>

theorem C5_as_stated_counterexample:
  "tagsToParse (demo_builder\<lparr>srcdir := ''missing''\<rparr>) \<noteq> [] \<and>
   tags (builder (Build demo_world (demo_builder\<lparr>srcdir := ''missing''\<rparr>))) \<noteq>
     Split (tagsToParse (demo_builder\<lparr>srcdir := ''missing''\<rparr>)) CHR '','' \<and>
   calls (Build demo_world (demo_builder\<lparr>srcdir := ''missing''\<rparr>)) = [] \<and>
   tagsToParse (demo_builder\<lparr>os := ''wasm''\<rparr>) \<noteq> [] \<and>
   src_ok old_go_world (demo_builder\<lparr>os := ''wasm''\<rparr>) \<and>
   map snd (calls (Build old_go_world (demo_builder\<lparr>os := ''wasm''\<rparr>))) = [[''version'']]"
  by (simp add: Build_def build_def build_goos_def build_runner_def newCommand_def
        build_versionConstraint_def isWeb_def checkGoVersion_def checkVersion_def slice_def
        src_ok_def old_go_world_def demo_world_def demo_builder_def Let_def)

lemma build_goos_effective: "build_goos wd b = effective_goos wd b"
  by (simp add: build_goos_def effective_goos_def targetOS_def Let_def)

lemma build_desktop_env:
  assumes "g = build_goos wd b" and "g \<noteq> ''ios''" and "g \<noteq> ''android''" and "\<not> isWeb g"
  shows "map (env \<circ> fst) (calls (build wd b)) = [build_env wd g]"
  using assms
  by (simp add: build_def build_versionConstraint_def Let_def split: prod.splits option.splits)

text \<open>
  C6. The target OS that \<^verbatim>\<open>build\<close> uses is the flag when it is non-empty, otherwise the
  \<^verbatim>\<open>GOOS\<close> environment variable when it is set, otherwise the host's
  \<^verbatim>\<open>runtime.GOOS\<close>; for a desktop target it is the value of the \<^verbatim>\<open>GOOS=\<close> entry that
  ends the environment the toolchain is run with.
\<close>

theorem C6_target_os:
  "build_goos wd b = effective_goos wd b \<and>
   (src_ok wd b \<and> effective_goos wd b \<notin> {''ios'', ''android'', ''gopherjs'', ''wasm''} \<longrightarrow>
      map (env \<circ> fst) (calls (Build wd b)) =
        [os_Environ wd @
         (if effective_goos wd b = ''darwin''
          then [''CGO_CFLAGS=-mmacosx-version-min=10.11'', ''CGO_LDFLAGS=-mmacosx-version-min=10.11'']
          else []) @
         [''CGO_ENABLED=1'', ''GOOS='' @ effective_goos wd b]])"
proof (intro conjI impI)
  show g: "build_goos wd b = effective_goos wd b" by (rule build_goos_effective)
  assume a: "src_ok wd b \<and> effective_goos wd b \<notin> {''ios'', ''android'', ''gopherjs'', ''wasm''}"
  let ?b = "if tagsToParse b \<noteq> [] then b\<lparr>tags := Split (tagsToParse b) CHR '',''\<rparr> else b"
  have g': "build_goos wd ?b = effective_goos wd b" using g by simp
  have "map (env \<circ> fst) (calls (build wd ?b)) = [build_env wd (effective_goos wd b)]"
    using a by (intro build_desktop_env) (simp_all add: g' isWeb_def)
  then show "map (env \<circ> fst) (calls (Build wd b)) =
        [os_Environ wd @
         (if effective_goos wd b = ''darwin''
          then [''CGO_CFLAGS=-mmacosx-version-min=10.11'', ''CGO_LDFLAGS=-mmacosx-version-min=10.11'']
          else []) @
         [''CGO_ENABLED=1'', ''GOOS='' @ effective_goos wd b]]"
    using a by (simp add: Build_ok build_env_def isWeb_def Let_def)
qed

theorem C6_target_os_witness:
  "build_goos demo_world demo_builder = ''windows'' \<and>
   build_goos demo_world (demo_builder\<lparr>os := ''darwin''\<rparr>) = ''darwin'' \<and>
   build_goos (demo_world\<lparr>os_LookupEnv := \<lambda>k. None\<rparr>) demo_builder = ''linux'' \<and>
   map (env \<circ> fst) (calls (Build demo_world demo_builder)) =
     [[''HOME=/root'', ''CGO_ENABLED=1'', ''GOOS=windows'']]"
  using C6_target_os [of demo_world demo_builder]
        C6_target_os [of demo_world "demo_builder\<lparr>os := ''darwin''\<rparr>"]
        C6_target_os [of "demo_world\<lparr>os_LookupEnv := \<lambda>k. None\<rparr>" demo_builder]
  by (simp add: effective_goos_def src_ok_def demo_world_def demo_builder_def)

text \<open>
  C7. When \<open>srcdir\<close> is non-empty and \<^verbatim>\<open>os.Stat\<close> fails on it or it is not a
  directory, \<^verbatim>\<open>Build\<close> returns an error (the one of \<^verbatim>\<open>os.Stat\<close>, or that the path is
  not a valid directory), the runner is never called, nothing is printed and the builder
  is left as it was.
\<close>

theorem C7_bad_srcdir:
  assumes "srcdir b \<noteq> []" and "os_Stat wd (srcdir b) \<noteq> Inr True"
  shows "err (Build wd b) =
           Some (case os_Stat wd (srcdir b) of Inl e \<Rightarrow> e | Inr isDir \<Rightarrow> NotADirectory) \<and>
         calls (Build wd b) = [] \<and> stderr (Build wd b) = [] \<and> builder (Build wd b) = b"
  using assms by (auto simp: Build_def Let_def split: sum.splits)

theorem C7_bad_srcdir_witness:
  "err (Build demo_world (demo_builder\<lparr>srcdir := ''missing''\<rparr>)) =
     Some (OsError ''no such file or directory'') \<and>
   calls (Build demo_world (demo_builder\<lparr>srcdir := ''missing''\<rparr>)) = [] \<and>
   err (Build demo_world (demo_builder\<lparr>srcdir := ''main.go''\<rparr>)) = Some NotADirectory \<and>
   calls (Build demo_world (demo_builder\<lparr>srcdir := ''main.go''\<rparr>)) = []"
  using C7_bad_srcdir [of "demo_builder\<lparr>srcdir := ''missing''\<rparr>" demo_world]
        C7_bad_srcdir [of "demo_builder\<lparr>srcdir := ''main.go''\<rparr>" demo_world]
  by (simp add: demo_world_def demo_builder_def)

lemma shape_Split:
  "go_version_shape output f3 f4 \<longleftrightarrow>
     Split output CHR '' '' = [''go'', ''version'', f3, f4] \<and> 5 \<le> length f3 \<and> take 2 f3 = ''go''"
  by (auto simp: go_version_shape_def Split_four)

lemma butlast_twice: "butlast (butlast s) = take (length s - 2) s"
proof -
  have "length s - 1 - 1 = length s - 2" by simp
  then show ?thesis by (simp add: butlast_conv_take min_def)
qed

lemma slice_strip: "slice f3 2 (length f3 - 2) = strip_version f3"
  by (simp add: slice_def strip_version_def butlast_twice drop_take)

lemma slice_prefix: "slice s 0 n = take n s"
  by (simp add: slice_def)

lemma checkVersion_accepts:
  assumes "go_version_shape output f3 f4"
  shows "checkVersion wd output c =
           (if version_Match wd c (version_Normalize wd (strip_version f3)) then None
            else Some (VersionMismatch c (version_Normalize wd (strip_version f3))))"
  using assms by (simp add: shape_Split checkVersion_def slice_strip slice_prefix Let_def)

lemma checkVersion_rejects:
  assumes "\<nexists>f3 f4. go_version_shape output f3 f4"
  shows "checkVersion wd output c = Some (InvalidVersionOutput output)"
proof (rule ccontr)
  assume neq: "checkVersion wd output c \<noteq> Some (InvalidVersionOutput output)"
  let ?sp = "Split output CHR '' ''"
  from neq have c: "length ?sp = 4" "?sp ! 0 = ''go''" "?sp ! 1 = ''version''"
    "5 \<le> length (?sp ! 2)" "take 2 (?sp ! 2) = ''go''"
    by (auto simp: checkVersion_def Let_def slice_def split: if_splits)
  from c(1) obtain a b f3 f4 where sp: "?sp = [a, b, f3, f4]"
    by (auto simp: length_Suc_conv numeral_eq_Suc)
  with c have "go_version_shape output f3 f4" by (simp add: shape_Split)
  with assms show False by blast
qed

text \<open>
  C8. For an output of the shape \<open>go version f3 f4\<close> (four fields separated by single
  spaces, \<open>f3\<close> of length at least 5 and starting with \<open>go\<close>), the version matched
  against the constraint is \<open>f3\<close> without its leading \<open>go\<close> and without its last two
  characters, in the normal form of the version library: \<open>go1.17.3\<close> is checked as
  \<open>1.17\<close>. Every other output is rejected as an invalid output.
\<close>

theorem C8_checkVersion:
  "(go_version_shape output f3 f4 \<longrightarrow>
      checkVersion wd output c =
        (if version_Match wd c (version_Normalize wd (strip_version f3)) then None
         else Some (VersionMismatch c (version_Normalize wd (strip_version f3))))) \<and>
   ((\<nexists>g3 g4. go_version_shape output g3 g4) \<longrightarrow>
      checkVersion wd output c = Some (InvalidVersionOutput output))"
  using checkVersion_accepts checkVersion_rejects by blast

theorem C8_checkVersion_witness:
  "go_version_shape ''go version go1.17.3 linux/amd64'' ''go1.17.3'' ''linux/amd64'' \<and>
   strip_version ''go1.17.3'' = ''1.17'' \<and>
   checkVersion demo_world ''go version go1.17.3 linux/amd64'' ''>=1.17'' = None \<and>
   checkVersion demo_world ''go version go1.17.3 linux/amd64'' ''>=1.18'' =
     Some (VersionMismatch ''>=1.18'' ''1.17'')"
  using C8_checkVersion [of "''go version go1.17.3 linux/amd64''" "''go1.17.3''" "''linux/amd64''"
                            demo_world "''>=1.17''"]
        C8_checkVersion [of "''go version go1.17.3 linux/amd64''" "''go1.17.3''" "''linux/amd64''"
                            demo_world "''>=1.18''"]
  by (simp add: go_version_shape_def strip_version_def demo_world_def)

section \<open>Properties of the test theme\<close>

lemma Color_undefined:
  "colors t n = None \<Longrightarrow>
   Color t n variant logs =
     (None, logs @ [LogError (''color '' @ n @ '' not defined in theme '' @ name t) None])"
  by (simp add: Color_def index_nilable_def)

lemma Font_undefined:
  "fonts t style = None \<Longrightarrow>
   Font sharp_v t style logs =
     (None, logs @ [LogError (''font for style '' @ sharp_v style @ '' not defined in theme '' @ name t) None])"
  by (simp add: Font_def index_nilable_def)

lemma Size_undefined:
  "sizes t s = None \<Longrightarrow>
   Size t s logs =
     (0, logs @ [LogError (''size '' @ s @ '' not defined in theme '' @ name t) None])"
  by (simp add: Size_def index_float_def)

text \<open>
  C9. For a colour name, a text style or a size name that is not a key of the theme's
  maps, \<^verbatim>\<open>Color\<close> and \<^verbatim>\<open>Font\<close> return \<^verbatim>\<open>nil\<close> and \<^verbatim>\<open>Size\<close> returns \<open>0\<close>, each
  after logging one error that names the missing entry and the theme; no default is
  substituted.
\<close>

theorem C9_undefined_entries:
  "(n \<notin> dom (colors t) \<longrightarrow>
      Color t n variant logs =
        (None, logs @ [LogError (''color '' @ n @ '' not defined in theme '' @ name t) None])) \<and>
   (style \<notin> dom (fonts t) \<longrightarrow>
      Font sharp_v t style logs =
        (None, logs @ [LogError (''font for style '' @ sharp_v style @ '' not defined in theme '' @ name t) None])) \<and>
   (s \<notin> dom (sizes t) \<longrightarrow>
      Size t s logs =
        (0, logs @ [LogError (''size '' @ s @ '' not defined in theme '' @ name t) None]))"
  by (simp add: domIff Color_undefined Font_undefined Size_undefined)

theorem C9_undefined_entries_witness:
  "''hover'' \<notin> dom (colors demo_theme) \<and> True \<notin> dom (fonts demo_theme) \<and>
   ''text'' \<notin> dom (sizes demo_theme) \<and>
   Color demo_theme ''hover'' (0::nat) ([] :: unit log_entry list) =
     (None, [LogError ''color hover not defined in theme Default Test Theme'' None]) \<and>
   Font (\<lambda>b. if b then ''bold'' else ''plain'') demo_theme True ([] :: unit log_entry list) =
     (None, [LogError ''font for style bold not defined in theme Default Test Theme'' None]) \<and>
   Size demo_theme ''text'' ([] :: unit log_entry list) =
     (0, [LogError ''size text not defined in theme Default Test Theme'' None])"
  using C9_undefined_entries [where n = "''hover''" and t = demo_theme and style = True
          and s = "''text''" and variant = "0::nat" and logs = "[] :: unit log_entry list"
          and sharp_v = "\<lambda>b. if b then ''bold'' else ''plain''"]
  by (simp add: demo_theme_def)

section \<open>Properties of the localisation fallback\<close>

lemma d0_first_data: "(if length data > 0 then data ! 0 else None) = first_data data"
  by (cases data) (simp_all add: first_data_def)

lemma fallbackWithData_applied:
  "fst (fallbackWithData deps key fallback d logs) = fallback_applied deps key fallback d"
  by (simp add: fallbackWithData_def fallback_applied_def split: sum.splits prod.splits)

lemma LocalizeKey_error:
  assumes "snd (Localize deps \<lparr>ID = key, Other = fallback, PluralCount = None,
                                TemplateData = first_data data\<rparr>) \<noteq> None"
  shows "fst (LocalizeKey deps key fallback data logs) =
           fallback_applied deps key fallback (first_data data)"
proof -
  obtain ret e where "Localize deps \<lparr>ID = key, Other = fallback, PluralCount = None,
                                TemplateData = first_data data\<rparr> = (ret, Some e)"
    using assms by (metis not_None_eq prod.collapse)
  then show ?thesis
    unfolding LocalizeKey_def d0_first_data
    by (simp add: fallbackWithData_applied)
qed

lemma LocalizePluralKey_error:
  assumes "snd (Localize deps \<lparr>ID = key, Other = fallback, PluralCount = Some count,
                                TemplateData = first_data data\<rparr>) \<noteq> None"
  shows "fst (LocalizePluralKey deps key fallback count data logs) =
           fallback_applied deps key fallback (first_data data)"
proof -
  obtain ret e where "Localize deps \<lparr>ID = key, Other = fallback, PluralCount = Some count,
                                TemplateData = first_data data\<rparr> = (ret, Some e)"
    using assms by (metis not_None_eq prod.collapse)
  then show ?thesis
    unfolding LocalizePluralKey_def d0_first_data
    by (simp add: fallbackWithData_applied)
qed

lemma fallback_unparsable:
  "template_Parse deps key fallback = Inl e \<Longrightarrow> fallback_applied deps key fallback d = fallback"
  by (simp add: fallback_applied_def)

text \<open>
  C10. When the localizer returns an error, \<^verbatim>\<open>LocalizeKey\<close> and \<^verbatim>\<open>LocalizePluralKey\<close>
  return the fallback parsed and executed as a template on the first data argument
  (\<^verbatim>\<open>nil\<close> when there is none); when the fallback does not parse, that is the fallback
  itself, unchanged.
\<close>

theorem C10_fallback_on_error:
  "(snd (Localize deps \<lparr>ID = key, Other = fallback, PluralCount = None,
                         TemplateData = first_data data\<rparr>) \<noteq> None \<longrightarrow>
      fst (LocalizeKey deps key fallback data logs) =
        fallback_applied deps key fallback (first_data data)) \<and>
   (snd (Localize deps \<lparr>ID = key, Other = fallback, PluralCount = Some count,
                         TemplateData = first_data data\<rparr>) \<noteq> None \<longrightarrow>
      fst (LocalizePluralKey deps key fallback count data logs) =
        fallback_applied deps key fallback (first_data data)) \<and>
   ((\<exists>e. template_Parse deps key fallback = Inl e) \<longrightarrow>
      fallback_applied deps key fallback (first_data data) = fallback)"
  by (auto simp: LocalizeKey_error LocalizePluralKey_error fallback_unparsable)

theorem C10_fallback_on_error_witness:
  "fst (LocalizeKey demo_lang ''greeting'' ''Hello'' [Some ''World''] []) = ''Hello World'' \<and>
   fst (LocalizePluralKey demo_lang ''apples'' ''Apples'' 3 [] []) = ''Apples'' \<and>
   fst (LocalizeKey demo_lang ''broken'' ''{{'' [Some ''World''] []) = ''{{''"
  using C10_fallback_on_error [where deps = demo_lang and key = "''greeting''" and fallback = "''Hello''"
          and data = "[Some ''World'']" and logs = "[]"]
        C10_fallback_on_error [where deps = demo_lang and key = "''apples''" and fallback = "''Apples''"
          and data = "[]" and count = 3 and logs = "[]"]
        C10_fallback_on_error [where deps = demo_lang and key = "''broken''" and fallback = "''{{''"
          and data = "[Some ''World'']" and logs = "[]"]
  by (simp add: demo_lang_def first_data_def fallback_applied_def)

end
